theory Spec2Isabelle
  imports Main "HOL-Library.Word"
begin

section \<open>Atomic primitives (atomic.hpp)\<close>

text \<open>
  Storage is modelled as explicit stores: a byte store for the single-byte flags and a
  store of pointer-sized cells for the pointer slots. A C++ reference parameter
  (\<open>bool&\<close>) and a pointer to a slot (\<open>Ty* const*\<close>) are both an address into the
  store; a parameter passed by value is the value itself.
\<close>

type_synonym addr = nat
type_synonym byte = "8 word"
type_synonym pvoid = "64 word"
type_synonym byte_store = "addr \<Rightarrow> byte"
type_synonym ptr_store = "addr \<Rightarrow> pvoid"

text \<open>\<open>static_cast<char>(b)\<close> of a \<open>bool\<close>, and the conversion of a \<open>char\<close> to \<open>bool\<close>.\<close>

definition char_of_bool :: "bool \<Rightarrow> byte" where
  "char_of_bool b = (if b then 1 else 0)"

definition bool_of_char :: "byte \<Rightarrow> bool" where
  "bool_of_char c = (c \<noteq> 0)"

text \<open>Reading a \<open>bool\<close> lvalue stored at an address.\<close>

definition load_bool :: "byte_store \<Rightarrow> addr \<Rightarrow> bool" where
  "load_bool h a = bool_of_char (h a)"

text \<open>
  The three interlocked intrinsics of the platform (\<open>ntddk.h\<close>), each one indivisible
  read-modify-write step: they return the cell's previous content.
  \<open>InterlockedCompareExchangePointer (Destination, Exchange, Comperand)\<close> stores
  \<open>Exchange\<close> only when the cell holds \<open>Comperand\<close>.
\<close>

definition InterlockedExchange8 :: "addr \<Rightarrow> byte \<Rightarrow> byte_store \<Rightarrow> byte \<times> byte_store" where
  "InterlockedExchange8 target v h = (h target, h(target := v))"

definition InterlockedExchangePointer :: "addr \<Rightarrow> pvoid \<Rightarrow> ptr_store \<Rightarrow> pvoid \<times> ptr_store" where
  "InterlockedExchangePointer target v h = (h target, h(target := v))"

definition InterlockedCompareExchangePointer ::
  "addr \<Rightarrow> pvoid \<Rightarrow> pvoid \<Rightarrow> ptr_store \<Rightarrow> pvoid \<times> ptr_store" where
  "InterlockedCompareExchangePointer destination exchange comperand h =
     (if h destination = comperand then (h destination, h(destination := exchange))
      else (h destination, h))"

text \<open>\<open>bool interlocked_exchange(bool& target, bool new_value)\<close>\<close>

definition interlocked_exchange :: "addr \<Rightarrow> bool \<Rightarrow> byte_store \<Rightarrow> bool \<times> byte_store" where
  "interlocked_exchange target new_value h =
     (case InterlockedExchange8 target (char_of_bool new_value) h of
        (old, h') \<Rightarrow> (bool_of_char old, h'))"

text \<open>
  \<open>void interlocked_swap(bool& lhs, bool& rhs)\<close>: \<open>old_lhs\<close> is read first; the
  argument \<open>rhs\<close> of the first exchange is read (lvalue to value) when that call is
  made; both results are discarded.
\<close>

definition interlocked_swap :: "addr \<Rightarrow> addr \<Rightarrow> byte_store \<Rightarrow> byte_store" where
  "interlocked_swap lhs rhs h =
     (let old_lhs = load_bool h lhs;
          h1 = snd (interlocked_exchange lhs (load_bool h rhs) h);
          h2 = snd (interlocked_exchange rhs old_lhs h1)
      in h2)"

text \<open>\<open>Ty* interlocked_exchange_pointer(Ty* const* ptr_place, Ty* new_ptr)\<close>\<close>

definition interlocked_exchange_pointer :: "addr \<Rightarrow> pvoid \<Rightarrow> ptr_store \<Rightarrow> pvoid \<times> ptr_store" where
  "interlocked_exchange_pointer ptr_place new_ptr h =
     InterlockedExchangePointer ptr_place new_ptr h"

text \<open>
  \<open>Ty* interlocked_compare_exchange_pointer(Ty* const* ptr_place, Ty* new_ptr, Ty* expected)\<close>:
  the casts do not change the address or the values.
\<close>

definition interlocked_compare_exchange_pointer ::
  "addr \<Rightarrow> pvoid \<Rightarrow> pvoid \<Rightarrow> ptr_store \<Rightarrow> pvoid \<times> ptr_store" where
  "interlocked_compare_exchange_pointer ptr_place new_ptr expected h =
     InterlockedCompareExchangePointer ptr_place new_ptr expected h"

text \<open>
  \<open>void interlocked_swap_pointer(Ty* const lhs, Ty* const rhs)\<close>: both parameters are
  pointer values passed by value (and \<open>const\<close>), so the function holds copies of what
  the caller's fields contain and no address of a field. Its body copies \<open>lhs\<close> into
  \<open>old_lhs\<close> and names \<open>interlocked_exchange\<close>, the single-byte flag exchange, whose
  first parameter is a \<open>bool&\<close>: applied to a pointer value it can at most act on a
  \<open>bool\<close> converted from the copy, which lives in a scratch byte of the call and is
  dropped with it. The function returns nothing, so all a caller can observe is the
  pointer store, which no step of the body writes.
\<close>

definition interlocked_swap_pointer :: "pvoid \<Rightarrow> pvoid \<Rightarrow> ptr_store \<Rightarrow> ptr_store" where
  "interlocked_swap_pointer lhs rhs h =
     (let old_lhs = lhs;
          scratch1 = snd (interlocked_exchange 0 (rhs \<noteq> 0) (\<lambda>_. char_of_bool (lhs \<noteq> 0)));
          scratch2 = snd (interlocked_exchange 0 (old_lhs \<noteq> 0) (\<lambda>_. char_of_bool (rhs \<noteq> 0)))
      in h)"

text \<open>A call site that wants to swap the pointer fields stored at \<open>a\<close> and \<open>b\<close>.\<close>

definition swap_pointer_fields :: "addr \<Rightarrow> addr \<Rightarrow> ptr_store \<Rightarrow> ptr_store" where
  "swap_pointer_fields a b h = interlocked_swap_pointer (h a) (h b) h"

section \<open>Sleeping and stalling (namespace this_thread of thread.h)\<close>

text \<open>
  The calls into the kernel are recorded in the order they are made. A time point and a
  duration are tick counts (of the time point's own \<open>Duration\<close> type); \<open>Clock::now()\<close>
  is the parameter \<open>now\<close>. \<open>chrono.hpp\<close> is not among the sources, so the two
  conversions (\<open>chrono::to_native_100ns_duration\<close> and
  \<open>chrono::duration_cast<chrono::microseconds>\<close>, each followed by \<open>count()\<close>) are
  parameters. \<open>KeDelayExecutionThread\<close> carries the \<open>QuadPart\<close> of its interval (the
  mode and the alertable flag are constant), \<open>KeStallExecutionProcessor\<close> its
  \<open>unsigned long\<close> argument.
\<close>

datatype os_call = KeDelayExecutionThread "64 word" | KeStallExecutionProcessor "32 word"

definition sleep_for :: "(int \<Rightarrow> int) \<Rightarrow> int \<Rightarrow> os_call list" where
  "sleep_for to_native_100ns_duration sleep_duration =
     (let native_duration = to_native_100ns_duration sleep_duration;
          interval = word_of_int (- 1 * native_duration)
      in [KeDelayExecutionThread interval])"

definition sleep_until :: "(int \<Rightarrow> int) \<Rightarrow> int \<Rightarrow> int \<Rightarrow> os_call list" where
  "sleep_until to_native_100ns_duration now sleep_time =
     (if sleep_time \<le> now then []
      else sleep_for to_native_100ns_duration (sleep_time - now))"

definition stall_for :: "(int \<Rightarrow> int) \<Rightarrow> int \<Rightarrow> os_call list" where
  "stall_for to_microseconds stall_duration =
     (let us_duration = to_microseconds stall_duration
      in [KeStallExecutionProcessor (word_of_int us_duration)])"

definition stall_until :: "(int \<Rightarrow> int) \<Rightarrow> int \<Rightarrow> int \<Rightarrow> os_call list" where
  "stall_until to_microseconds now stall_time =
     (if stall_time \<le> now then []
      else stall_for to_microseconds (stall_time - now))"

section \<open>Spawning a thread (thread.h)\<close>

type_synonym irql_t = "8 word"
type_synonym NTSTATUS = "32 word"

text \<open>
  Modelled from the spec: \<open>irql.h\<close> and the platform headers are not among the sources.
  The spec calls \<open>PASSIVE_LEVEL\<close> the least-restrictive level, at which paged memory is
  allowed, and \<open>DISPATCH_LEVEL\<close> the dispatch threshold; the numbers are the platform's
  (\<open>KIRQL\<close> is an unsigned byte, levels 0 and 2), as are the two status codes.
\<close>

definition PASSIVE_LEVEL :: irql_t where
  "PASSIVE_LEVEL = 0"

definition DISPATCH_LEVEL :: irql_t where
  "DISPATCH_LEVEL = 2"

definition STATUS_SUCCESS :: NTSTATUS where
  "STATUS_SUCCESS = 0"

definition STATUS_UNHANDLED_EXCEPTION :: NTSTATUS where
  "STATUS_UNHANDLED_EXCEPTION = 0xC0000144"

text \<open>
  What a C++ call can raise: a \<open>ktl::exception\<close> (or a class derived from it), which
  carries a status \<open>code()\<close>, or anything else. A callable applied to its arguments
  either raises or returns a value.
\<close>

datatype thrown = Ktl_exception NTSTATUS | Foreign_exception

text \<open>
  Everything a spawn and the spawned thread do to the packed-argument record and to the
  outside is recorded as a trace of events, in program order.
\<close>

datatype pool = paged_new | non_paged_new

datatype event =
    Allocate pool
  | Create_thread_impl "pvoid option"
  | Release
  | Delete_record
  | Assert_native_handle bool
  | Make_call
  | Before_exit "NTSTATUS option"
  | Terminate

text \<open>
  The local \<open>unique_ptr<arg_tuple_t> packed_args\<close> of a spawn: whether it owns the
  record, next to the trace so far. \<open>release()\<close> gives the record up without freeing
  it; the destructor frees what is still owned.
\<close>

record frame =
  trace :: "event list"
  owns :: bool

definition unique_ptr_release :: "frame \<Rightarrow> frame" where
  "unique_ptr_release f =
     (if owns f then f\<lparr>trace := trace f @ [Release], owns := False\<rparr> else f)"

definition unique_ptr_destroy :: "frame \<Rightarrow> frame" where
  "unique_ptr_destroy f =
     (if owns f then f\<lparr>trace := trace f @ [Delete_record], owns := False\<rparr> else f)"

text \<open>
  \<open>worker_thread::pack_fn_with_args\<close>. The allocation is taken to return a record (the
  allocators are outside the sources).
\<close>

definition pack_fn_with_args :: "irql_t \<Rightarrow> frame" where
  "pack_fn_with_args max_irql =
     (if max_irql < DISPATCH_LEVEL then \<lparr>trace = [Allocate paged_new], owns = True\<rparr>
      else \<lparr>trace = [Allocate non_paged_new], owns = True\<rparr>)"

text \<open>
  \<open>create_thread_impl\<close> is declared in thread.h and defined elsewhere; what it does is a
  parameter: it raises, or it returns a thread object, which may be null (the
  constructors' assertion message reads "opening thread failed; thread is running").
\<close>

datatype impl_outcome = Impl_raises thrown | Impl_returns pvoid

text \<open>
  \<open>system_thread::create_thread\<close> and \<open>io_thread::create_thread\<close>. When
  \<open>create_thread_impl\<close> raises, the function is left through the exception and the
  destructor of \<open>packed_args\<close> runs on the owning pointer; when it returns,
  \<open>packed_args.release()\<close> runs first and the destructor finds nothing to free.
\<close>

definition system_thread_create_thread :: "irql_t \<Rightarrow> impl_outcome \<Rightarrow> (thrown + pvoid) \<times> frame" where
  "system_thread_create_thread max_irql impl =
     (let packed_args = pack_fn_with_args max_irql;
          called = packed_args\<lparr>trace := trace packed_args @ [Create_thread_impl None]\<rparr>
      in case impl of
           Impl_raises e \<Rightarrow> (Inl e, unique_ptr_destroy called)
         | Impl_returns thread_obj \<Rightarrow>
             (Inr thread_obj, unique_ptr_destroy (unique_ptr_release called)))"

definition io_thread_create_thread ::
  "pvoid \<Rightarrow> irql_t \<Rightarrow> impl_outcome \<Rightarrow> (thrown + pvoid) \<times> frame" where
  "io_thread_create_thread io_obj max_irql impl =
     (let packed_args = pack_fn_with_args max_irql;
          called = packed_args\<lparr>trace := trace packed_args @ [Create_thread_impl (Some io_obj)]\<rparr>
      in case impl of
           Impl_raises e \<Rightarrow> (Inl e, unique_ptr_destroy called)
         | Impl_returns thread_obj \<Rightarrow>
             (Inr thread_obj, unique_ptr_destroy (unique_ptr_release called)))"

text \<open>
  The wrapper. Modelled from the spec: the constructor
  \<open>thread_base(internal_object_type)\<close> is declared only; it "takes ownership" of the
  reference, that is, stores it in \<open>m_thread\<close>.
\<close>

record thread_base =
  m_thread :: pvoid

definition native_handle :: "thread_base \<Rightarrow> pvoid" where
  "native_handle w = m_thread w"

text \<open>
  The constructors: the base is initialised from \<open>create_thread\<close>, then the body asserts
  \<open>native_handle()\<close>. An exception of \<open>create_thread\<close> leaves the constructor, and no
  wrapper comes to exist. The result is the wrapper (or what was raised) and the trace.
  \<open>construct\<close> is the text the four constructors have in common, \<open>MyBase(...)\<close>
  followed by \<open>assert_with_msg(native_handle(), ...)\<close>; the assertion is recorded with
  the value of its condition.
\<close>

definition construct :: "(thrown + pvoid) \<times> frame \<Rightarrow> (thrown + thread_base) \<times> event list" where
  "construct r =
     (case r of
        (Inl e, f) \<Rightarrow> (Inl e, trace f)
      | (Inr thread_obj, f) \<Rightarrow>
          (let w = \<lparr>m_thread = thread_obj\<rparr>
           in (Inr w, trace f @ [Assert_native_handle (native_handle w \<noteq> 0)])))"

definition system_thread_ctor :: "irql_t \<Rightarrow> impl_outcome \<Rightarrow> (thrown + thread_base) \<times> event list" where
  "system_thread_ctor max_irql impl = construct (system_thread_create_thread max_irql impl)"

definition system_thread_ctor_default :: "impl_outcome \<Rightarrow> (thrown + thread_base) \<times> event list" where
  "system_thread_ctor_default impl = construct (system_thread_create_thread PASSIVE_LEVEL impl)"

definition io_thread_ctor ::
  "pvoid \<Rightarrow> irql_t \<Rightarrow> impl_outcome \<Rightarrow> (thrown + thread_base) \<times> event list" where
  "io_thread_ctor io_obj max_irql impl = construct (io_thread_create_thread io_obj max_irql impl)"

definition io_thread_ctor_default ::
  "pvoid \<Rightarrow> impl_outcome \<Rightarrow> (thrown + thread_base) \<times> event list" where
  "io_thread_ctor_default io_obj impl =
     construct (io_thread_create_thread io_obj PASSIVE_LEVEL impl)"

text \<open>Reading a trace: the pools asked for, and how often the record was freed.\<close>

fun allocations :: "event list \<Rightarrow> pool list" where
  "allocations [] = []"
| "allocations (Allocate p # es) = p # allocations es"
| "allocations (e # es) = allocations es"

definition frees :: "event list \<Rightarrow> nat" where
  "frees es = count_list es Delete_record"

text \<open>\<open>precedes a b es\<close>: \<open>a\<close> occurs in \<open>es\<close> and \<open>b\<close> occurs after its first occurrence.\<close>

definition precedes :: "event \<Rightarrow> event \<Rightarrow> event list \<Rightarrow> bool" where
  "precedes a b es = (b \<in> set (dropWhile (\<lambda>e. e \<noteq> a) es))"

section \<open>The trampoline on the new thread (thread.h)\<close>

text \<open>
  The packed-argument record: the decayed callable and its decayed arguments. A callable
  applied to its arguments raises or returns a value.
\<close>

record ('a, 'r) arg_tuple =
  tuple_fn :: "'a \<Rightarrow> thrown + 'r"
  tuple_args :: 'a

text \<open>
  \<open>worker_thread::make_call\<close> calls the callable and drops what it returns;
  \<open>system_thread::make_call\<close> calls the former and returns \<open>STATUS_SUCCESS\<close>;
  \<open>guarded_system_thread::make_call\<close> wraps the latter in \<open>try\<close>, with \<open>status\<close>
  initialised to \<open>STATUS_SUCCESS\<close>, a handler for \<open>const exception&\<close> and a handler for
  everything else. An exception that no handler takes leaves the function (\<open>Inl\<close>).
\<close>

definition worker_thread_make_call :: "('a \<Rightarrow> thrown + 'r) \<Rightarrow> 'a \<Rightarrow> thrown + unit" where
  "worker_thread_make_call fn args = (case fn args of Inl e \<Rightarrow> Inl e | Inr _ \<Rightarrow> Inr ())"

definition system_thread_make_call :: "('a \<Rightarrow> thrown + 'r) \<Rightarrow> 'a \<Rightarrow> thrown + NTSTATUS" where
  "system_thread_make_call fn args =
     (case worker_thread_make_call fn args of
        Inl e \<Rightarrow> Inl e
      | Inr _ \<Rightarrow> Inr STATUS_SUCCESS)"

definition guarded_system_thread_make_call ::
  "('a \<Rightarrow> thrown + 'r) \<Rightarrow> 'a \<Rightarrow> thrown + NTSTATUS" where
  "guarded_system_thread_make_call fn args =
     (let status = STATUS_SUCCESS
      in case system_thread_make_call fn args of
           Inr _ \<Rightarrow> Inr status
         | Inl (Ktl_exception code) \<Rightarrow> Inr code
         | Inl Foreign_exception \<Rightarrow> Inr STATUS_UNHANDLED_EXCEPTION)"

text \<open>
  \<open>worker_thread<ConcreteThread>\<close> is instantiated twice, by \<open>system_thread\<close> and by
  \<open>io_thread\<close>. Its \<open>accessor\<close> derives from \<open>ConcreteThread\<close> and names that class's
  \<open>make_call\<close> and \<open>before_exit\<close>: for \<open>system_thread\<close> the call returns a status, for
  \<open>io_thread\<close> (which takes over \<open>worker_thread::make_call\<close>) nothing.
\<close>

datatype concrete_thread = System_thread | Io_thread

definition accessor_make_call ::
  "concrete_thread \<Rightarrow> ('a \<Rightarrow> thrown + 'r) \<Rightarrow> 'a \<Rightarrow> thrown + NTSTATUS option" where
  "accessor_make_call k fn args =
     (case k of
        System_thread \<Rightarrow>
          (case system_thread_make_call fn args of Inl e \<Rightarrow> Inl e | Inr st \<Rightarrow> Inr (Some st))
      | Io_thread \<Rightarrow>
          (case worker_thread_make_call fn args of Inl e \<Rightarrow> Inl e | Inr _ \<Rightarrow> Inr None))"

text \<open>
  The classes a caller can construct, and the instantiation whose \<open>create_thread\<close> and
  \<open>get_thread_routine\<close> their constructors run: \<open>guarded_system_thread\<close> inherits the
  constructors of \<open>system_thread\<close>, which name the trampoline of
  \<open>worker_thread<system_thread>\<close>.
\<close>

datatype thread_class = Class_system_thread | Class_guarded_system_thread | Class_io_thread

definition get_thread_routine :: "thread_class \<Rightarrow> concrete_thread" where
  "get_thread_routine c =
     (case c of
        Class_system_thread \<Rightarrow> System_thread
      | Class_guarded_system_thread \<Rightarrow> System_thread
      | Class_io_thread \<Rightarrow> Io_thread)"

text \<open>
  \<open>worker_thread::invoke_in_thread\<close> with \<open>invoke_with_unpacked_args\<close>. The
  \<open>decltype\<close> operand is not evaluated, so one \<open>unique_ptr\<close> is built from \<open>raw_args\<close>:
  the parameter \<open>args_guard\<close> of \<open>invoke_with_unpacked_args\<close>, which owns the record
  while \<open>make_call\<close> runs.
  \<^item> Both functions are \<open>noexcept\<close>: an exception leaving \<open>make_call\<close> ends in
    \<open>terminate\<close>, and the record is not freed.
  \<^item> In the \<open>void\<close> branch the call of \<open>invoke_with_unpacked_args\<close> is a statement of
    its own, so \<open>args_guard\<close> is gone before the next statement calls \<open>before_exit()\<close>.
  \<^item> In the other branch the call is the argument of \<open>before_exit\<close>. C++ leaves it to
    the implementation whether a parameter dies when its function returns
    (\<open>callee_destroys\<close>, as the platform's compiler does) or at the end of the enclosing
    full expression, that is, once \<open>before_exit\<close> has returned (\<open>before_exit_returns\<close>;
    the hook is declared only).
\<close>

definition invoke_in_thread ::
  "bool \<Rightarrow> bool \<Rightarrow> concrete_thread \<Rightarrow> ('a, 'r) arg_tuple \<Rightarrow> event list" where
  "invoke_in_thread callee_destroys before_exit_returns k r =
     (case accessor_make_call k (tuple_fn r) (tuple_args r) of
        Inl e \<Rightarrow> [Make_call, Terminate]
      | Inr None \<Rightarrow> [Make_call, Delete_record, Before_exit None]
      | Inr (Some status) \<Rightarrow>
          (if callee_destroys then [Make_call, Delete_record, Before_exit (Some status)]
           else [Make_call, Before_exit (Some status)] @
                (if before_exit_returns then [Delete_record] else [])))"

section \<open>Properties of the atomic primitives\<close>

lemma bool_of_char_of_bool: "bool_of_char (char_of_bool b) = b"
  by (simp add: bool_of_char_def char_of_bool_def)

lemma interlocked_exchange_fst: "fst (interlocked_exchange a v h) = load_bool h a"
  by (simp add: interlocked_exchange_def InterlockedExchange8_def load_bool_def)

lemma interlocked_exchange_snd: "snd (interlocked_exchange a v h) = h(a := char_of_bool v)"
  by (simp add: interlocked_exchange_def InterlockedExchange8_def)

text \<open>
  C7. For a flag holding \<open>v0\<close> and any new value \<open>v1\<close>, \<open>interlocked_exchange\<close> returns
  \<open>v0\<close> and leaves the flag holding \<open>v1\<close>; no other byte of the store changes.
\<close>

theorem interlocked_exchange_correct:
  "fst (interlocked_exchange flag v1 h) = load_bool h flag \<and>
   load_bool (snd (interlocked_exchange flag v1 h)) flag = v1 \<and>
   snd (interlocked_exchange flag v1 h) = h(flag := char_of_bool v1)"
  by (simp add: interlocked_exchange_fst interlocked_exchange_snd load_bool_def
      bool_of_char_of_bool)

text \<open>
  C8. Run on its own, \<open>interlocked_swap lhs rhs\<close> leaves in \<open>lhs\<close> the value \<open>rhs\<close> held
  and in \<open>rhs\<close> the value \<open>lhs\<close> held (also when both name the same flag); it is two
  separate exchanges, each on one flag.
\<close>

theorem interlocked_swap_correct:
  "load_bool (interlocked_swap lhs rhs h) lhs = load_bool h rhs \<and>
   load_bool (interlocked_swap lhs rhs h) rhs = load_bool h lhs \<and>
   interlocked_swap lhs rhs h =
     snd (interlocked_exchange rhs (load_bool h lhs)
       (snd (interlocked_exchange lhs (load_bool h rhs) h)))"
  by (simp add: interlocked_swap_def Let_def interlocked_exchange_snd load_bool_def
      bool_of_char_of_bool)

text \<open>
  C6. \<open>interlocked_compare_exchange_pointer slot new expected\<close> returns what the slot
  held before the call in every case; it stores \<open>new\<close> in the slot when that content
  equals \<open>expected\<close>, and leaves the whole store as it was when it does not.
\<close>

theorem interlocked_compare_exchange_pointer_cas:
  "fst (interlocked_compare_exchange_pointer slot new expected h) = h slot \<and>
   (h slot = expected \<longrightarrow>
      snd (interlocked_compare_exchange_pointer slot new expected h) = h(slot := new)) \<and>
   (h slot \<noteq> expected \<longrightarrow>
      snd (interlocked_compare_exchange_pointer slot new expected h) = h)"
  by (simp add: interlocked_compare_exchange_pointer_def InterlockedCompareExchangePointer_def)

theorem interlocked_compare_exchange_pointer_cas_witness:
  "fst (interlocked_compare_exchange_pointer 0 7 5 ((\<lambda>_. 0)(0 := 5))) = 5 \<and>
   snd (interlocked_compare_exchange_pointer 0 7 5 ((\<lambda>_. 0)(0 := 5))) = ((\<lambda>_. 0)(0 := 5))(0 := 7) \<and>
   fst (interlocked_compare_exchange_pointer 0 7 6 ((\<lambda>_. 0)(0 := 5))) = 5 \<and>
   snd (interlocked_compare_exchange_pointer 0 7 6 ((\<lambda>_. 0)(0 := 5))) = (\<lambda>_. 0)(0 := 5)"
  using interlocked_compare_exchange_pointer_cas [of 0 7 5 "(\<lambda>_. 0)(0 := 5)"]
    interlocked_compare_exchange_pointer_cas [of 0 7 6 "(\<lambda>_. 0)(0 := 5)"]
  by simp

text \<open>
  C3. The claim asks that after \<open>interlocked_swap_pointer\<close> each of two pointer fields
  holds what the other held. With the fields at addresses 0 and 1 holding the distinct
  pointers 16 and 32, the call leaves both fields as they were.
\<close>

theorem interlocked_swap_pointer_no_exchange:
  "swap_pointer_fields 0 1 ((\<lambda>_. 0)(0 := 16, 1 := 32)) 0 = 16 \<and>
   swap_pointer_fields 0 1 ((\<lambda>_. 0)(0 := 16, 1 := 32)) 1 = 32"
  by (simp add: swap_pointer_fields_def interlocked_swap_pointer_def Let_def)

section \<open>Properties of sleeping and stalling\<close>

text \<open>
  C10. For a target that is not after \<open>now\<close>, \<open>sleep_until\<close> and \<open>stall_until\<close> return
  without any call into the kernel; for a target strictly after \<open>now\<close> they make the one
  call of \<open>sleep_for\<close> (of \<open>stall_for\<close>) on the remaining duration \<open>target - now\<close>.
\<close>

theorem until_not_future:
  "(target \<le> now \<longrightarrow>
      sleep_until to_native now target = [] \<and> stall_until to_us now target = []) \<and>
   (now < target \<longrightarrow>
      sleep_until to_native now target = sleep_for to_native (target - now) \<and>
      stall_until to_us now target = stall_for to_us (target - now) \<and>
      length (sleep_until to_native now target) = 1 \<and>
      length (stall_until to_us now target) = 1)"
  by (simp add: sleep_until_def stall_until_def sleep_for_def stall_for_def)

theorem until_not_future_witness:
  "sleep_until (\<lambda>d. d) 10 10 = [] \<and> stall_until (\<lambda>d. d) 10 7 = [] \<and>
   sleep_until (\<lambda>d. d) 10 13 = [KeDelayExecutionThread (- 3)] \<and>
   stall_until (\<lambda>d. d) 10 13 = [KeStallExecutionProcessor 3]"
  using until_not_future [of 10 10 "\<lambda>d. d" "\<lambda>d. d"] until_not_future [of 7 10 "\<lambda>d. d" "\<lambda>d. d"]
    until_not_future [of 13 10 "\<lambda>d. d" "\<lambda>d. d"]
  by (simp add: sleep_for_def stall_for_def)

section \<open>Properties of a spawn\<close>

lemma pack_fn_with_args_trace:
  "trace (pack_fn_with_args q) =
     [Allocate (if q < DISPATCH_LEVEL then paged_new else non_paged_new)]"
  by (simp add: pack_fn_with_args_def)

lemma pack_fn_with_args_owns: "owns (pack_fn_with_args q)"
  by (simp add: pack_fn_with_args_def)

text \<open>The four runs of a constructor, written out.\<close>

lemma system_thread_ctor_raises:
  "system_thread_ctor q (Impl_raises e) =
     (Inl e, [Allocate (if q < DISPATCH_LEVEL then paged_new else non_paged_new),
              Create_thread_impl None, Delete_record])"
  by (simp add: system_thread_ctor_def construct_def system_thread_create_thread_def Let_def
      unique_ptr_destroy_def pack_fn_with_args_trace pack_fn_with_args_owns)

lemma system_thread_ctor_returns:
  "system_thread_ctor q (Impl_returns obj) =
     (Inr \<lparr>m_thread = obj\<rparr>,
      [Allocate (if q < DISPATCH_LEVEL then paged_new else non_paged_new),
       Create_thread_impl None, Release, Assert_native_handle (obj \<noteq> 0)])"
  by (simp add: system_thread_ctor_def construct_def system_thread_create_thread_def Let_def
      unique_ptr_destroy_def unique_ptr_release_def native_handle_def
      pack_fn_with_args_trace pack_fn_with_args_owns)

lemma io_thread_ctor_raises:
  "io_thread_ctor io q (Impl_raises e) =
     (Inl e, [Allocate (if q < DISPATCH_LEVEL then paged_new else non_paged_new),
              Create_thread_impl (Some io), Delete_record])"
  by (simp add: io_thread_ctor_def construct_def io_thread_create_thread_def Let_def
      unique_ptr_destroy_def pack_fn_with_args_trace pack_fn_with_args_owns)

lemma io_thread_ctor_returns:
  "io_thread_ctor io q (Impl_returns obj) =
     (Inr \<lparr>m_thread = obj\<rparr>,
      [Allocate (if q < DISPATCH_LEVEL then paged_new else non_paged_new),
       Create_thread_impl (Some io), Release, Assert_native_handle (obj \<noteq> 0)])"
  by (simp add: io_thread_ctor_def construct_def io_thread_create_thread_def Let_def
      unique_ptr_destroy_def unique_ptr_release_def native_handle_def
      pack_fn_with_args_trace pack_fn_with_args_owns)

lemmas ctor_traces = system_thread_ctor_raises system_thread_ctor_returns
  io_thread_ctor_raises io_thread_ctor_returns

text \<open>
  C1. In every spawn through a \<open>system_thread\<close> or \<open>io_thread\<close> constructor, whatever
  \<open>create_thread_impl\<close> then does, the record is asked from the paged pool exactly when
  the hint is strictly below \<open>DISPATCH_LEVEL\<close> and from the non-paged pool exactly when
  it is at or above; the allocation is the first event of the spawn, directly before
  the call that creates the native thread, and there is no other.
\<close>

theorem pool_selection:
  "(allocations (snd (system_thread_ctor max_irql impl)) = [paged_new]) =
     (max_irql < DISPATCH_LEVEL) \<and>
   (allocations (snd (system_thread_ctor max_irql impl)) = [non_paged_new]) =
     (DISPATCH_LEVEL \<le> max_irql) \<and>
   (allocations (snd (io_thread_ctor io_obj max_irql impl)) = [paged_new]) =
     (max_irql < DISPATCH_LEVEL) \<and>
   (allocations (snd (io_thread_ctor io_obj max_irql impl)) = [non_paged_new]) =
     (DISPATCH_LEVEL \<le> max_irql) \<and>
   (\<exists>p rest. snd (system_thread_ctor max_irql impl) =
        Allocate p # Create_thread_impl None # rest \<and> allocations rest = []) \<and>
   (\<exists>p rest. snd (io_thread_ctor io_obj max_irql impl) =
        Allocate p # Create_thread_impl (Some io_obj) # rest \<and> allocations rest = [])"
  by (cases impl) (auto simp: ctor_traces)

text \<open>
  C9. The constructors without a hint give the same result and the same trace as the
  hinted ones called with \<open>PASSIVE_LEVEL\<close>, and the record then comes from the paged
  pool.
\<close>

theorem default_ctor_is_passive_level:
  "system_thread_ctor_default impl = system_thread_ctor PASSIVE_LEVEL impl \<and>
   io_thread_ctor_default io_obj impl = io_thread_ctor io_obj PASSIVE_LEVEL impl \<and>
   allocations (snd (system_thread_ctor_default impl)) = [paged_new] \<and>
   allocations (snd (io_thread_ctor_default io_obj impl)) = [paged_new]"
proof -
  have lt: "PASSIVE_LEVEL < DISPATCH_LEVEL"
    by (simp add: PASSIVE_LEVEL_def DISPATCH_LEVEL_def)
  have s: "system_thread_ctor_default impl = system_thread_ctor PASSIVE_LEVEL impl"
    by (simp add: system_thread_ctor_default_def system_thread_ctor_def)
  have i: "io_thread_ctor_default io_obj impl = io_thread_ctor io_obj PASSIVE_LEVEL impl"
    by (simp add: io_thread_ctor_default_def io_thread_ctor_def)
  show ?thesis
    unfolding s i using lt by (cases impl) (simp_all add: ctor_traces)
qed



section \<open>Properties of the trampoline\<close>

text \<open>
  \<open>guarded_system_thread::make_call\<close>, taken as a function on its own, returns the code
  carried by a \<open>ktl::exception\<close> the callable raises, \<open>STATUS_UNHANDLED_EXCEPTION\<close>
  for any other exception, and \<open>STATUS_SUCCESS\<close> when the callable returns; it never
  raises itself.
\<close>

lemma guarded_make_call_absorbs:
  "(fn args = Inl (Ktl_exception code) \<longrightarrow>
      guarded_system_thread_make_call fn args = Inr code) \<and>
   (fn args = Inl Foreign_exception \<longrightarrow>
      guarded_system_thread_make_call fn args = Inr STATUS_UNHANDLED_EXCEPTION) \<and>
   (\<not> isl (fn args) \<longrightarrow> guarded_system_thread_make_call fn args = Inr STATUS_SUCCESS) \<and>
   \<not> isl (guarded_system_thread_make_call fn args)"
  by (auto simp: guarded_system_thread_make_call_def system_thread_make_call_def
      worker_thread_make_call_def split: sum.splits thrown.splits)

text \<open>
  The trampoline that a \<open>guarded_system_thread\<close> is spawned with is the one of
  \<open>worker_thread<system_thread>\<close>: it reaches \<open>system_thread::make_call\<close>, and a
  callable that raises, whatever it raises, ends in \<open>terminate\<close> with no call of
  \<open>before_exit\<close>.
\<close>

lemma guarded_spawn_runs_system_make_call:
  "invoke_in_thread callee_destroys before_exit_returns
     (get_thread_routine Class_guarded_system_thread)
     \<lparr>tuple_fn = (\<lambda>_. Inl e), tuple_args = args\<rparr> = [Make_call, Terminate]"
  by (simp add: invoke_in_thread_def get_thread_routine_def accessor_make_call_def
      system_thread_make_call_def worker_thread_make_call_def)

text \<open>
  C5. The claim asks that an exception of the user callable of a
  \<open>guarded_system_thread\<close> is caught in \<open>make_call\<close> and turned into a status that
  \<open>before_exit\<close> delivers. For a callable that raises a \<open>ktl::exception\<close> with code 5,
  \<open>guarded_system_thread::make_call\<close> would return 5, but the thread spawned for a
  \<open>guarded_system_thread\<close> never calls it: the run ends in \<open>terminate\<close>, and no status
  reaches \<open>before_exit\<close>.
\<close>

theorem guarded_spawn_not_absorbed:
  "guarded_system_thread_make_call (\<lambda>x::nat. Inl (Ktl_exception 5) :: thrown + nat) 3 = Inr 5 \<and>
   invoke_in_thread True True (get_thread_routine Class_guarded_system_thread)
     \<lparr>tuple_fn = (\<lambda>x::nat. Inl (Ktl_exception 5) :: thrown + nat), tuple_args = 3\<rparr> =
     [Make_call, Terminate] \<and>
   Before_exit (Some 5) \<notin> set
     (invoke_in_thread True True (get_thread_routine Class_guarded_system_thread)
        \<lparr>tuple_fn = (\<lambda>x::nat. Inl (Ktl_exception 5) :: thrown + nat), tuple_args = 3\<rparr>)"
  by (simp add: invoke_in_thread_def get_thread_routine_def accessor_make_call_def
      guarded_system_thread_make_call_def system_thread_make_call_def
      worker_thread_make_call_def)

text \<open>
  C4, as amended. In the trampoline of \<open>worker_thread<K>\<close> (\<open>K\<close> is \<open>system_thread\<close> or
  \<open>io_thread\<close>), \<open>K\<close>'s \<open>make_call\<close> runs first, on the callable and the arguments of the
  record. Whenever it returns, its result (a status for \<open>system_thread\<close>, none for
  \<open>io_thread\<close>) is what \<open>before_exit\<close> receives, and the record is freed by the owning
  parameter of \<open>invoke_with_unpacked_args\<close>, never twice:
  \<^item> before \<open>before_exit\<close> is called, when there is no result or the callee destroys its
    parameters;
  \<^item> otherwise after \<open>before_exit\<close>, once it has returned;
  \<^item> and not at all when, in that last case, \<open>before_exit\<close> does not return.
  When \<open>make_call\<close> raises, which is the callable raising, the trampoline ends in
  \<open>terminate\<close> with neither \<open>before_exit\<close> nor the release of the record.
\<close>

theorem trampoline_order:
  "(accessor_make_call k (tuple_fn r) (tuple_args r) = Inr res \<longrightarrow>
      (res = None \<or> callee_destroys \<longrightarrow>
         invoke_in_thread callee_destroys before_exit_returns k r =
           [Make_call, Delete_record, Before_exit res] \<and>
         frees (invoke_in_thread callee_destroys before_exit_returns k r) = 1) \<and>
      (res \<noteq> None \<and> \<not> callee_destroys \<and> before_exit_returns \<longrightarrow>
         invoke_in_thread callee_destroys before_exit_returns k r =
           [Make_call, Before_exit res, Delete_record] \<and>
         frees (invoke_in_thread callee_destroys before_exit_returns k r) = 1) \<and>
      (res \<noteq> None \<and> \<not> callee_destroys \<and> \<not> before_exit_returns \<longrightarrow>
         invoke_in_thread callee_destroys before_exit_returns k r =
           [Make_call, Before_exit res] \<and>
         frees (invoke_in_thread callee_destroys before_exit_returns k r) = 0) \<and>
      (k = System_thread \<longrightarrow> res = Some STATUS_SUCCESS) \<and>
      (k = Io_thread \<longrightarrow> res = None) \<and>
      \<not> isl (tuple_fn r (tuple_args r))) \<and>
   (accessor_make_call k (tuple_fn r) (tuple_args r) = Inl e \<longrightarrow>
      invoke_in_thread callee_destroys before_exit_returns k r = [Make_call, Terminate] \<and>
      frees (invoke_in_thread callee_destroys before_exit_returns k r) = 0 \<and>
      tuple_fn r (tuple_args r) = Inl e)"
proof -
  have returned: "?thesis" if "accessor_make_call k (tuple_fn r) (tuple_args r) = Inr res'" for res'
    using that
    by (cases res'; cases k)
      (auto simp: invoke_in_thread_def frees_def accessor_make_call_def
        system_thread_make_call_def worker_thread_make_call_def split: sum.splits)
  have raised: "?thesis" if "accessor_make_call k (tuple_fn r) (tuple_args r) = Inl e'" for e'
    using that
    by (cases k)
      (auto simp: invoke_in_thread_def frees_def accessor_make_call_def
        system_thread_make_call_def worker_thread_make_call_def split: sum.splits)
  show ?thesis
  proof (cases "accessor_make_call k (tuple_fn r) (tuple_args r)")
    case (Inl e')
    then show ?thesis by (rule raised)
  next
    case (Inr res')
    then show ?thesis by (rule returned)
  qed
qed

theorem trampoline_order_witness:
  "invoke_in_thread True False System_thread
     \<lparr>tuple_fn = (\<lambda>x::nat. Inr x :: thrown + nat), tuple_args = 3\<rparr> =
     [Make_call, Delete_record, Before_exit (Some STATUS_SUCCESS)] \<and>
   invoke_in_thread False True System_thread
     \<lparr>tuple_fn = (\<lambda>x::nat. Inr x :: thrown + nat), tuple_args = 3\<rparr> =
     [Make_call, Before_exit (Some STATUS_SUCCESS), Delete_record] \<and>
   invoke_in_thread False False System_thread
     \<lparr>tuple_fn = (\<lambda>x::nat. Inr x :: thrown + nat), tuple_args = 3\<rparr> =
     [Make_call, Before_exit (Some STATUS_SUCCESS)] \<and>
   invoke_in_thread False False Io_thread
     \<lparr>tuple_fn = (\<lambda>x::nat. Inr x :: thrown + nat), tuple_args = 3\<rparr> =
     [Make_call, Delete_record, Before_exit None] \<and>
   invoke_in_thread True True Io_thread
     \<lparr>tuple_fn = (\<lambda>x::nat. Inl (Ktl_exception 5) :: thrown + nat), tuple_args = 3\<rparr> =
     [Make_call, Terminate]"
proof -
  let ?r = "\<lparr>tuple_fn = (\<lambda>x::nat. Inr x :: thrown + nat), tuple_args = 3\<rparr>"
  let ?q = "\<lparr>tuple_fn = (\<lambda>x::nat. Inl (Ktl_exception 5) :: thrown + nat), tuple_args = 3\<rparr>"
  have s: "accessor_make_call System_thread (tuple_fn ?r) (tuple_args ?r) =
      Inr (Some STATUS_SUCCESS)"
    by (simp add: accessor_make_call_def system_thread_make_call_def worker_thread_make_call_def)
  have i: "accessor_make_call Io_thread (tuple_fn ?r) (tuple_args ?r) = Inr None"
    by (simp add: accessor_make_call_def worker_thread_make_call_def)
  have q: "accessor_make_call Io_thread (tuple_fn ?q) (tuple_args ?q) = Inl (Ktl_exception 5)"
    by (simp add: accessor_make_call_def worker_thread_make_call_def)
  show ?thesis
    using trampoline_order [of System_thread ?r "Some STATUS_SUCCESS" True False] s
      trampoline_order [of System_thread ?r "Some STATUS_SUCCESS" False True]
      trampoline_order [of System_thread ?r "Some STATUS_SUCCESS" False False]
      trampoline_order [of Io_thread ?r None False False] i
      trampoline_order [of Io_thread ?q _ True True "Ktl_exception 5"] q
    by simp
qed

text \<open>
  C4 as stated has the record freed after \<open>before_exit\<close> and on every path. An
  \<open>io_thread\<close> whose callable returns frees the record before \<open>before_exit\<close> runs, also
  where parameters live to the end of the full expression; a \<open>system_thread\<close> whose
  callable raises reaches neither \<open>before_exit\<close> nor the release of the record; and
  where parameters live to the end of the full expression, a \<open>system_thread\<close> whose
  \<open>before_exit\<close> does not return never frees the record.
\<close>

theorem trampoline_counterexample:
  "invoke_in_thread False True Io_thread
     \<lparr>tuple_fn = (\<lambda>x::nat. Inr x :: thrown + nat), tuple_args = 3\<rparr> =
     [Make_call, Delete_record, Before_exit None] \<and>
   \<not> precedes (Before_exit None) Delete_record
       (invoke_in_thread False True Io_thread
          \<lparr>tuple_fn = (\<lambda>x::nat. Inr x :: thrown + nat), tuple_args = 3\<rparr>) \<and>
   invoke_in_thread True True System_thread
     \<lparr>tuple_fn = (\<lambda>x::nat. Inl Foreign_exception :: thrown + nat), tuple_args = 3\<rparr> =
     [Make_call, Terminate] \<and>
   frees (invoke_in_thread True True System_thread
     \<lparr>tuple_fn = (\<lambda>x::nat. Inl Foreign_exception :: thrown + nat), tuple_args = 3\<rparr>) = 0 \<and>
   invoke_in_thread False False System_thread
     \<lparr>tuple_fn = (\<lambda>x::nat. Inr x :: thrown + nat), tuple_args = 3\<rparr> =
     [Make_call, Before_exit (Some STATUS_SUCCESS)] \<and>
   frees (invoke_in_thread False False System_thread
     \<lparr>tuple_fn = (\<lambda>x::nat. Inr x :: thrown + nat), tuple_args = 3\<rparr>) = 0"
  by (simp add: invoke_in_thread_def accessor_make_call_def worker_thread_make_call_def
      system_thread_make_call_def precedes_def frees_def)

end
